theory Spec2Isabelle
  imports Main
begin

section \<open>JavaScript values used by the library\<close>

text \<open>
  Strings are lists of characters; a character stands for one code unit below 256.
  A string is truthy exactly when it is not empty, and \<open>undefined\<close> is falsy:
  the source tests optional strings with \<open>if (x)\<close>, \<open>x ? a : b\<close> and \<open>!x\<close>.
\<close>

definition truthy :: "string \<Rightarrow> bool" where
  "truthy s = (s \<noteq> [])"

fun truthy_opt :: "string option \<Rightarrow> bool" where
  "truthy_opt None = False"
| "truthy_opt (Some s) = truthy s"

text \<open>
  \<open>String.prototype.trim\<close> removes white space from both ends. The white space
  characters below 256 are tab, line feed, vertical tab, form feed, carriage return,
  space and the no-break space.
\<close>

definition is_ws :: "char \<Rightarrow> bool" where
  "is_ws c = (c = CHR 0x09 \<or> c = CHR 0x0A \<or> c = CHR 0x0B \<or> c = CHR 0x0C \<or>
              c = CHR 0x0D \<or> c = CHR 0x20 \<or> c = CHR 0xA0)"

definition trim :: "string \<Rightarrow> string" where
  "trim s = rev (dropWhile is_ws (rev (dropWhile is_ws s)))"

section \<open>exceptions.ts\<close>

text \<open>
  The four error classes of the library, each with its message, and the plain
  \<open>Error\<close> of JavaScript, which the source throws with \<open>new Error(...)\<close> and which
  also stands for whatever the store client throws.
\<close>

datatype error =
    Error string
  | ItemNotFoundError string
  | InvalidParametersError string
  | DecoratorMissingError string
  | DuplicateDecoratorError string

section \<open>types.ts\<close>

text \<open>
  \<open>DynamoKey = string | number\<close>. Key values are only carried into maps and
  commands, never computed with, so a number is modelled by an integer.
\<close>

datatype DynamoKey = KeyString string | KeyNumber int

type_synonym DynamoKeyMap = "string \<Rightarrow> DynamoKey option"


text \<open>
  A class is known by its identity and carries its declared name (\<open>target.name\<close>);
  a class declared with \<open>extends\<close> also carries its superclass.
  \<open>DynamoEntityTarget\<close> is a class or an instance of one.
\<close>

datatype cls = Class (cid: nat) (cname: string) | Subclass (cid: nat) (cname: string) cls

datatype DynamoEntityTarget = ClassTarget cls | InstanceOf cls

section \<open>decorators.ts\<close>

subsection \<open>The metadata store\<close>

text \<open>
  The decorators keep their facts in the metadata store of the reflect-metadata
  package, under a metadata key and a target object. A class decorator receives the
  class constructor as its target, a property decorator the prototype of the class.
  The values are strings (table name, partition key, sort key) or records from index
  name to field name (the two index keys); the source casts on reading, the model keeps
  the two kinds apart. A property key is the string \<open>String(propertyKey)\<close>.
\<close>

datatype obj = Constructor cls | Prototype cls

text \<open>
  \<open>Reflect.getMetadata\<close> looks on the target and then along its prototype chain:
  the constructor of a subclass has the constructor of its superclass as prototype, and
  the prototype of a subclass the prototype of its superclass. The chain of a target is
  the target itself followed by these objects, nearest first; the first object of the
  chain that has the metadata key of its own gives the value.
\<close>

fun superclasses :: "cls \<Rightarrow> cls list" where
  "superclasses (Class i n) = []"
| "superclasses (Subclass i n p) = p # superclasses p"

fun chain :: "obj \<Rightarrow> obj list" where
  "chain (Constructor c) = Constructor c # map Constructor (superclasses c)"
| "chain (Prototype c) = Prototype c # map Prototype (superclasses c)"

fun firstDefined :: "('a \<Rightarrow> 'b option) \<Rightarrow> 'a list \<Rightarrow> 'b option" where
  "firstDefined f [] = None"
| "firstDefined f (x # xs) = (case f x of Some v \<Rightarrow> Some v | None \<Rightarrow> firstDefined f xs)"

text \<open>
  A record of index keys is a JavaScript object, kept in the store by reference: the
  store holds, for a target and a key, the address of the record, and the heap holds
  the own entries of every record. \<open>next_ref\<close> is the address the next object literal
  \<open>{}\<close> gets.
\<close>

record registry =
  meta :: "obj \<Rightarrow> string \<Rightarrow> string option"
  index_meta :: "obj \<Rightarrow> string \<Rightarrow> nat option"
  heap :: "nat \<Rightarrow> string \<Rightarrow> string option"
  next_ref :: nat

definition empty_registry :: registry where
  "empty_registry =
     \<lparr> meta = (\<lambda>_ _. None), index_meta = (\<lambda>_ _. None), heap = (\<lambda>_ _. None), next_ref = 0 \<rparr>"

definition getMetadata :: "string \<Rightarrow> obj \<Rightarrow> registry \<Rightarrow> string option" where
  "getMetadata key target reg = firstDefined (\<lambda>t. meta reg t key) (chain target)"

definition defineMetadata :: "string \<Rightarrow> string \<Rightarrow> obj \<Rightarrow> registry \<Rightarrow> registry" where
  "defineMetadata key v target reg =
     reg\<lparr> meta := (meta reg)(target := (meta reg target)(key \<mapsto> v)) \<rparr>"

definition getRecordMetadata :: "string \<Rightarrow> obj \<Rightarrow> registry \<Rightarrow> nat option" where
  "getRecordMetadata key target reg = firstDefined (\<lambda>t. index_meta reg t key) (chain target)"

definition defineRecordMetadata :: "string \<Rightarrow> nat \<Rightarrow> obj \<Rightarrow> registry \<Rightarrow> registry" where
  "defineRecordMetadata key r target reg =
     reg\<lparr> index_meta := (index_meta reg)(target := (index_meta reg target)(key \<mapsto> r)) \<rparr>"

text \<open>
  Reading a property of a record, \<open>record[name]\<close>, gives the own entry of that name
  and, when there is none, what a plain object inherits from \<open>Object.prototype\<close>:
  the function \<open>Object\<close> for \<open>constructor\<close>, \<open>Object.prototype\<close> itself for
  \<open>__proto__\<close>, and a built-in function for each of the other member names. Such an
  inherited value is not a string; it stands here as the string JavaScript coerces it
  to, which is what the source does with it in a template literal and a property key,
  and it is truthy and not \<open>undefined\<close>, as the value itself is.
\<close>

definition objectPrototypeFunctions :: "string list" where
  "objectPrototypeFunctions =
     [''__defineGetter__'', ''__defineSetter__'', ''hasOwnProperty'', ''__lookupGetter__'',
      ''__lookupSetter__'', ''isPrototypeOf'', ''propertyIsEnumerable'', ''toString'',
      ''valueOf'', ''toLocaleString'']"

definition objectPrototypeMember :: "string \<Rightarrow> string option" where
  "objectPrototypeMember name =
     (if name = ''constructor'' then Some ''function Object() { [native code] }''
      else if name = ''__proto__'' then Some ''[object Object]''
      else if name \<in> set objectPrototypeFunctions
        then Some (''function '' @ name @ ''() { [native code] }'')
      else None)"

definition getProperty :: "(string \<Rightarrow> string option) \<Rightarrow> string \<Rightarrow> string option" where
  "getProperty entries name =
     (case entries name of Some v \<Rightarrow> Some v | None \<Rightarrow> objectPrototypeMember name)"

definition DYNAMO_TABLE_NAME_KEY :: string where
  "DYNAMO_TABLE_NAME_KEY = ''dynamo:table:name''"

definition DYNAMO_PARTITION_KEY_KEY :: string where
  "DYNAMO_PARTITION_KEY_KEY = ''dynamo:partition:key''"

definition DYNAMO_SORT_KEY_KEY :: string where
  "DYNAMO_SORT_KEY_KEY = ''dynamo:sort:key''"

definition DYNAMO_INDEX_PARTITION_KEYS_KEY :: string where
  "DYNAMO_INDEX_PARTITION_KEYS_KEY = ''dynamo:index:partition:keys''"

definition DYNAMO_INDEX_SORT_KEYS_KEY :: string where
  "DYNAMO_INDEX_SORT_KEYS_KEY = ''dynamo:index:sort:keys''"

subsection \<open>Helpers\<close>

fun getConstructor :: "DynamoEntityTarget \<Rightarrow> cls" where
  "getConstructor (ClassTarget c) = c"
| "getConstructor (InstanceOf c) = c"

definition getPrototype :: "DynamoEntityTarget \<Rightarrow> obj" where
  "getPrototype target = Prototype (getConstructor target)"

text \<open>
  \<open>target.constructor?.name || "Unknown"\<close>: the constructor of a prototype is its
  class, the constructor of a class constructor is \<open>Function\<close>.
\<close>

fun constructor_name :: "obj \<Rightarrow> string" where
  "constructor_name (Prototype c) = (if truthy (cname c) then cname c else ''Unknown'')"
| "constructor_name (Constructor c) = ''Function''"

text \<open>
  A validation returns \<open>None\<close> when it returns normally and \<open>Some e\<close> when it throws
  \<open>e\<close>.
\<close>

definition validateDuplicateDecorator ::
  "registry \<Rightarrow> obj \<Rightarrow> string \<Rightarrow> string \<Rightarrow> string \<Rightarrow> error option" where
  \<open>validateDuplicateDecorator reg target key decoratorName conflict =
     (case getMetadata key target reg of
        Some existingKey \<Rightarrow>
          Some (DuplicateDecoratorError
            (''Multiple '' @ decoratorName @ '' decorators found in class "'' @
             constructor_name target @ ''". '' @
             ''Existing decorator: "'' @ existingKey @ ''", conflicting property: "'' @
             conflict @ ''"''))
      | None \<Rightarrow> None)\<close>

definition validateNonEmptyString :: "string \<Rightarrow> string \<Rightarrow> error option" where
  "validateNonEmptyString v paramName =
     (if trim v = [] then Some (Error (''Invalid '' @ paramName @ '': cannot be an empty string.''))
      else None)"

text \<open>
  \<open>if (name) { validateNonEmptyString(name, paramName); }\<close> for an optional name:
  the check runs only when the name is truthy.
\<close>

definition validateOptionalName :: "string option \<Rightarrow> string \<Rightarrow> error option" where
  "validateOptionalName name paramName =
     (case name of
        None \<Rightarrow> None
      | Some n \<Rightarrow> (if truthy n then validateNonEmptyString n paramName else None))"

text \<open>\<open>name ?? fallback\<close>: the fallback is taken only when the name is absent.\<close>

fun nullish :: "string option \<Rightarrow> string \<Rightarrow> string" where
  "nullish None fallback = fallback"
| "nullish (Some n) fallback = n"

subsection \<open>The decorators\<close>

text \<open>
  Applying a decorator either throws, and then the store is as it was (every throw of
  the source comes before the write), or writes one entry. The result is the error
  thrown, if any, and the store afterwards.
\<close>

definition DynamoTable :: "string option \<Rightarrow> cls \<Rightarrow> registry \<Rightarrow> error option \<times> registry" where
  "DynamoTable tableName target reg =
     (case validateOptionalName tableName ''tableName'' of
        Some e \<Rightarrow> (Some e, reg)
      | None \<Rightarrow>
          (let dynamoTableName = nullish tableName (cname target) in
           case validateDuplicateDecorator reg (Constructor target) DYNAMO_TABLE_NAME_KEY
                  ''@DynamoTable'' dynamoTableName of
             Some e \<Rightarrow> (Some e, reg)
           | None \<Rightarrow>
               (None, defineMetadata DYNAMO_TABLE_NAME_KEY dynamoTableName (Constructor target) reg)))"

definition PartitionKey ::
  "string option \<Rightarrow> obj \<Rightarrow> string \<Rightarrow> registry \<Rightarrow> error option \<times> registry" where
  "PartitionKey fieldName target propertyKey reg =
     (case validateOptionalName fieldName ''fieldName'' of
        Some e \<Rightarrow> (Some e, reg)
      | None \<Rightarrow>
          (let dynamoFieldName = nullish fieldName propertyKey in
           case validateDuplicateDecorator reg target DYNAMO_PARTITION_KEY_KEY
                  ''@PartitionKey'' dynamoFieldName of
             Some e \<Rightarrow> (Some e, reg)
           | None \<Rightarrow> (None, defineMetadata DYNAMO_PARTITION_KEY_KEY dynamoFieldName target reg)))"

definition SortKey ::
  "string option \<Rightarrow> obj \<Rightarrow> string \<Rightarrow> registry \<Rightarrow> error option \<times> registry" where
  "SortKey fieldName target propertyKey reg =
     (case validateOptionalName fieldName ''fieldName'' of
        Some e \<Rightarrow> (Some e, reg)
      | None \<Rightarrow>
          (let dynamoFieldName = nullish fieldName propertyKey in
           case validateDuplicateDecorator reg target DYNAMO_SORT_KEY_KEY
                  ''@SortKey'' propertyKey of
             Some e \<Rightarrow> (Some e, reg)
           | None \<Rightarrow> (None, defineMetadata DYNAMO_SORT_KEY_KEY dynamoFieldName target reg)))"

text \<open>
  The two index decorators read the record that \<open>Reflect.getMetadata\<close> finds for the
  target, on the target or along its chain (a new empty record when there is none),
  refuse an index name for which the record has a property, and otherwise write the
  entry into that very record and define the record as metadata of the target.
  \<open>existingKeysOf\<close> gives the own entries of the record read; \<open>storeIndexKey\<close> is
  the assignment \<open>existingKeys[indexName] = dynamoFieldName\<close> followed by
  \<open>Reflect.defineMetadata\<close>.
\<close>

definition existingKeysOf :: "string \<Rightarrow> obj \<Rightarrow> registry \<Rightarrow> (string \<Rightarrow> string option)" where
  "existingKeysOf key target reg =
     (case getRecordMetadata key target reg of None \<Rightarrow> (\<lambda>_. None) | Some r \<Rightarrow> heap reg r)"

definition storeIndexKey :: "string \<Rightarrow> string \<Rightarrow> string \<Rightarrow> obj \<Rightarrow> registry \<Rightarrow> registry" where
  "storeIndexKey key indexName dynamoFieldName target reg =
     (case getRecordMetadata key target reg of
        Some r \<Rightarrow>
          defineRecordMetadata key r target
            (reg\<lparr> heap := (heap reg)(r := (heap reg r)(indexName \<mapsto> dynamoFieldName)) \<rparr>)
      | None \<Rightarrow>
          defineRecordMetadata key (next_ref reg) target
            (reg\<lparr> heap := (heap reg)(next_ref reg := [indexName \<mapsto> dynamoFieldName]),
                  next_ref := Suc (next_ref reg) \<rparr>))"

definition IndexPartitionKey ::
  "string \<Rightarrow> string option \<Rightarrow> obj \<Rightarrow> string \<Rightarrow> registry \<Rightarrow> error option \<times> registry" where
  \<open>IndexPartitionKey indexName fieldName target propertyKey reg =
     (case validateNonEmptyString indexName ''indexName'' of
        Some e \<Rightarrow> (Some e, reg)
      | None \<Rightarrow>
     (case validateOptionalName fieldName ''fieldName'' of
        Some e \<Rightarrow> (Some e, reg)
      | None \<Rightarrow>
          (let dynamoFieldName = nullish fieldName propertyKey;
               existingKeys = existingKeysOf DYNAMO_INDEX_PARTITION_KEYS_KEY target reg in
           case getProperty existingKeys indexName of
             Some existing \<Rightarrow>
               (Some (DuplicateDecoratorError
                  (''Multiple @IndexPartitionKey decorators found for index "'' @ indexName @
                   ''" in class "'' @ constructor_name target @ ''". '' @
                   ''Existing partition key: "'' @ existing @
                   ''", conflicting property: "'' @ propertyKey @ ''"'')), reg)
           | None \<Rightarrow>
               (None, storeIndexKey DYNAMO_INDEX_PARTITION_KEYS_KEY indexName dynamoFieldName
                        target reg))))\<close>

definition IndexSortKey ::
  "string \<Rightarrow> string option \<Rightarrow> obj \<Rightarrow> string \<Rightarrow> registry \<Rightarrow> error option \<times> registry" where
  \<open>IndexSortKey indexName fieldName target propertyKey reg =
     (case validateNonEmptyString indexName ''indexName'' of
        Some e \<Rightarrow> (Some e, reg)
      | None \<Rightarrow>
     (case validateOptionalName fieldName ''fieldName'' of
        Some e \<Rightarrow> (Some e, reg)
      | None \<Rightarrow>
          (let dynamoFieldName = nullish fieldName propertyKey;
               existingKeys = existingKeysOf DYNAMO_INDEX_SORT_KEYS_KEY target reg in
           case getProperty existingKeys indexName of
             Some existing \<Rightarrow>
               (Some (DuplicateDecoratorError
                  (''Multiple @IndexSortKey decorators found for index "'' @ indexName @
                   ''" in class "'' @ constructor_name target @ ''". '' @
                   ''Existing sort key: "'' @ existing @
                   ''", conflicting property: "'' @ propertyKey @ ''"'')), reg)
           | None \<Rightarrow>
               (None, storeIndexKey DYNAMO_INDEX_SORT_KEYS_KEY indexName dynamoFieldName
                        target reg))))\<close>

subsection \<open>The resolvers\<close>

definition getDynamoTableName :: "registry \<Rightarrow> DynamoEntityTarget \<Rightarrow> string option" where
  "getDynamoTableName reg target =
     getMetadata DYNAMO_TABLE_NAME_KEY (Constructor (getConstructor target)) reg"

definition getPartitionKeyName :: "registry \<Rightarrow> DynamoEntityTarget \<Rightarrow> string option" where
  "getPartitionKeyName reg target = getMetadata DYNAMO_PARTITION_KEY_KEY (getPrototype target) reg"

definition getSortKeyName :: "registry \<Rightarrow> DynamoEntityTarget \<Rightarrow> string option" where
  "getSortKeyName reg target = getMetadata DYNAMO_SORT_KEY_KEY (getPrototype target) reg"

text \<open>
  The index resolvers throw on an empty or blank index name; \<open>indexKeys?.[indexName]\<close>
  is absent when no record is found for the class, and otherwise the property of that
  name of the record found.
\<close>

definition lookupIndexKeys :: "registry \<Rightarrow> nat option \<Rightarrow> string \<Rightarrow> string option" where
  "lookupIndexKeys reg indexKeys indexName =
     (case indexKeys of None \<Rightarrow> None | Some r \<Rightarrow> getProperty (heap reg r) indexName)"

definition getIndexPartitionKeyName ::
  "registry \<Rightarrow> DynamoEntityTarget \<Rightarrow> string \<Rightarrow> error + string option" where
  "getIndexPartitionKeyName reg target indexName =
     (if \<not> truthy indexName \<or> trim indexName = [] then Inl (Error ''indexName cannot be empty'')
      else Inr (lookupIndexKeys reg
                  (getRecordMetadata DYNAMO_INDEX_PARTITION_KEYS_KEY (getPrototype target) reg)
                  indexName))"

definition getIndexSortKeyName ::
  "registry \<Rightarrow> DynamoEntityTarget \<Rightarrow> string \<Rightarrow> error + string option" where
  "getIndexSortKeyName reg target indexName =
     (if \<not> truthy indexName \<or> trim indexName = [] then Inl (Error ''indexName cannot be empty'')
      else Inr (lookupIndexKeys reg
                  (getRecordMetadata DYNAMO_INDEX_SORT_KEYS_KEY (getPrototype target) reg)
                  indexName))"

section \<open>simple-dynamodb-repository.ts\<close>

subsection \<open>Items, commands and the store client\<close>

text \<open>
  An item is a flat record of named fields (\<open>Record<string, unknown>\<close>).
\<close>

datatype jsvalue = JString string | JNumber int | JBool bool | JNull

type_synonym item = "string \<Rightarrow> jsvalue option"

record QueryCommandInput =
  TableName :: string
  IndexName :: "string option"
  KeyConditionExpression :: string
  ExpressionAttributeNames :: "string \<Rightarrow> string option"
  ExpressionAttributeValues :: "string \<Rightarrow> DynamoKey option"
  Limit :: "int option"
  ScanIndexForward :: bool

text \<open>
  The four commands the repository sends. \<open>GetCommand\<close> and \<open>DeleteCommand\<close> carry
  the table name and the key map; \<open>PutCommand\<close> the table name, the item and, when
  \<open>create\<close> sends it, the condition expression and the attribute names.
\<close>

datatype command =
    GetCommand string DynamoKeyMap
  | PutCommand string item "string option" "(string \<Rightarrow> string option) option"
  | DeleteCommand string DynamoKeyMap
  | QueryCommand QueryCommandInput

record response =
  Item :: "item option"
  Items :: "item list option"
  LastEvaluatedKey :: "item option"
  Count :: "int option"

text \<open>
  The document client is an external collaborator. Its answer to a command may depend
  on the commands it was sent before; a rejected promise is an \<open>Inl\<close>. The list of
  the commands sent so far is the effect of the repository on the outside:
  \<open>client.send(command)\<close> extends it by one command.
\<close>

type_synonym client = "command list \<Rightarrow> command \<Rightarrow> error + response"

definition send :: "client \<Rightarrow> command \<Rightarrow> command list \<Rightarrow> (error + response) \<times> command list" where
  "send cl c sent = (cl sent c, sent @ [c])"

record DynamoDBRepository =
  client :: client
  entityClass :: cls

subsection \<open>Resolving names\<close>

text \<open>
  Where the source goes on with an optional string it has just found truthy,
  \<open>nullish x []\<close> reads the string that is there.
\<close>

definition getTableName :: "registry \<Rightarrow> DynamoDBRepository \<Rightarrow> error + string" where
  \<open>getTableName reg this =
     (let tableName = getDynamoTableName reg (ClassTarget (entityClass this)) in
      if \<not> truthy_opt tableName then
        Inl (DecoratorMissingError
          (''Table name not found for entity class "'' @ cname (entityClass this) @
           ''". Make sure the class is decorated with @DynamoTable.''))
      else Inr (nullish tableName []))\<close>

definition getPKName :: "registry \<Rightarrow> DynamoDBRepository \<Rightarrow> string option \<Rightarrow> error + string" where
  \<open>getPKName reg this indexName =
     (case (if truthy_opt indexName
            then getIndexPartitionKeyName reg (ClassTarget (entityClass this)) (nullish indexName [])
            else Inr None) of
        Inl e \<Rightarrow> Inl e
      | Inr indexPk \<Rightarrow>
          (let pkName = (if truthy_opt indexPk then indexPk
                         else getPartitionKeyName reg (ClassTarget (entityClass this))) in
           if truthy_opt pkName then Inr (nullish pkName [])
           else Inl (DecoratorMissingError
             (''Partition key not found for entity class "'' @ cname (entityClass this) @
              ''". Make sure a property is decorated with @PartitionKey.''))))\<close>

definition getSKName ::
  "registry \<Rightarrow> DynamoDBRepository \<Rightarrow> string option \<Rightarrow> error + string option" where
  "getSKName reg this indexName =
     (case (if truthy_opt indexName
            then getIndexSortKeyName reg (ClassTarget (entityClass this)) (nullish indexName [])
            else Inr None) of
        Inl e \<Rightarrow> Inl e
      | Inr skName \<Rightarrow>
          Inr (if truthy_opt skName then skName
               else getSortKeyName reg (ClassTarget (entityClass this))))"

definition buildKeyMap ::
  "registry \<Rightarrow> DynamoDBRepository \<Rightarrow> DynamoKey \<Rightarrow> DynamoKey option \<Rightarrow> error + DynamoKeyMap" where
  \<open>buildKeyMap reg this pk sk =
     (case getPKName reg this None of
        Inl e \<Rightarrow> Inl e
      | Inr partitionKey \<Rightarrow>
          (let keys = [partitionKey \<mapsto> pk] in
           case sk of
             None \<Rightarrow> Inr keys
           | Some skv \<Rightarrow>
               (case getSKName reg this None of
                  Inl e \<Rightarrow> Inl e
                | Inr sortKey \<Rightarrow>
                    if \<not> truthy_opt sortKey then
                      Inl (DecoratorMissingError
                        (''Sort key provided but entity class "'' @ cname (entityClass this) @
                         ''" does not have a sort key defined. Make sure a property is decorated with @SortKey.''))
                    else Inr (keys(nullish sortKey [] \<mapsto> skv)))))\<close>

subsection \<open>Expressions\<close>

definition buildCreateConditionExpression :: "string option \<Rightarrow> string" where
  "buildCreateConditionExpression skName =
     (if truthy_opt skName then ''attribute_not_exists(#pk) AND attribute_not_exists(#sk)''
      else ''attribute_not_exists(#pk)'')"

definition buildExpressionAttributeNames ::
  "string \<Rightarrow> string option \<Rightarrow> (string \<Rightarrow> string option)" where
  "buildExpressionAttributeNames pkName skName =
     (let expressionAttributeNames = [''#pk'' \<mapsto> pkName] in
      if truthy_opt skName then expressionAttributeNames(''#sk'' \<mapsto> nullish skName [])
      else expressionAttributeNames)"

record QueryExpressions =
  keyConditionExpression :: string
  expressionAttributeNames :: "string \<Rightarrow> string option"
  expressionAttributeValues :: "string \<Rightarrow> DynamoKey option"

text \<open>A template literal renders an absent string as \<open>undefined\<close>.\<close>

fun interpolate :: "string option \<Rightarrow> string" where
  "interpolate None = ''undefined''"
| "interpolate (Some s) = s"

definition buildQueryExpressions ::
  "DynamoKey \<Rightarrow> string \<Rightarrow> DynamoKey option \<Rightarrow> string option \<Rightarrow> string option \<Rightarrow> QueryExpressions" where
  "buildQueryExpressions pk pkName sk skName skComparator =
     (let names = [''#pk'' \<mapsto> pkName];
          vals = ['':pkValue'' \<mapsto> pk];
          cond = ''#pk = :pkValue'' in
      case sk of
        None \<Rightarrow>
          \<lparr> keyConditionExpression = cond, expressionAttributeNames = names,
            expressionAttributeValues = vals \<rparr>
      | Some skv \<Rightarrow>
          if truthy_opt skName then
            (let skComparisonString =
                   (if skComparator = Some ''begins_with'' then ''begins_with(#sk, :skValue)''
                    else ''#sk '' @ interpolate skComparator @ '' :skValue'') in
             \<lparr> keyConditionExpression = cond @ '' AND '' @ skComparisonString,
               expressionAttributeNames = names(''#sk'' \<mapsto> nullish skName []),
               expressionAttributeValues = vals('':skValue'' \<mapsto> skv) \<rparr>)
          else
            \<lparr> keyConditionExpression = cond, expressionAttributeNames = names,
              expressionAttributeValues = vals \<rparr>)"

subsection \<open>The clock\<close>

text \<open>
  \<open>new Date().toISOString()\<close> reads the clock and renders the instant in UTC as
  \<open>YYYY-MM-DDTHH:mm:ss.sssZ\<close>. The instant read is a parameter of the model, given by
  its UTC fields (the month counted from 0, as \<open>getUTCMonth\<close> does); a year above 9999
  is rendered with a sign and six digits.
\<close>

record Date =
  utcFullYear :: nat
  utcMonth :: nat
  utcDate :: nat
  utcHours :: nat
  utcMinutes :: nat
  utcSeconds :: nat
  utcMilliseconds :: nat

fun digits :: "nat \<Rightarrow> string" where
  "digits n = (if n < 10 then [char_of (48 + n)]
               else digits (n div 10) @ [char_of (48 + n mod 10)])"

definition padStart :: "nat \<Rightarrow> string \<Rightarrow> string" where
  "padStart w s = replicate (w - length s) CHR ''0'' @ s"

definition toISOString :: "Date \<Rightarrow> string" where
  "toISOString d =
     (if utcFullYear d \<le> 9999 then padStart 4 (digits (utcFullYear d))
      else ''+'' @ padStart 6 (digits (utcFullYear d))) @ ''-'' @
     padStart 2 (digits (utcMonth d + 1)) @ ''-'' @
     padStart 2 (digits (utcDate d)) @ ''T'' @
     padStart 2 (digits (utcHours d)) @ '':'' @
     padStart 2 (digits (utcMinutes d)) @ '':'' @
     padStart 2 (digits (utcSeconds d)) @ ''.'' @
     padStart 3 (digits (utcMilliseconds d)) @ ''Z''"

subsection \<open>The operations\<close>

text \<open>
  Each operation takes the commands sent so far and returns its result, an error for a
  rejected promise, with the commands sent afterwards. An absent item argument
  (\<open>null\<close> or \<open>undefined\<close>) is \<open>None\<close>. The \<open>catch\<close> blocks log and throw the
  error again; the log is left out.
\<close>

definition create ::
  "registry \<Rightarrow> DynamoDBRepository \<Rightarrow> item option \<Rightarrow> command list \<Rightarrow> (error + item) \<times> command list" where
  "create reg this item sent =
     (case item of
        None \<Rightarrow> (Inl (Error ''Item cannot be null or undefined''), sent)
      | Some it \<Rightarrow>
     (case getTableName reg this of
        Inl e \<Rightarrow> (Inl e, sent)
      | Inr tableName \<Rightarrow>
     (case getPKName reg this None of
        Inl e \<Rightarrow> (Inl e, sent)
      | Inr partitionKey \<Rightarrow>
     (case getSKName reg this None of
        Inl e \<Rightarrow> (Inl e, sent)
      | Inr sortKey \<Rightarrow>
          (let conditionExpression = buildCreateConditionExpression sortKey;
               names = buildExpressionAttributeNames partitionKey sortKey;
               command = PutCommand tableName it (Some conditionExpression) (Some names) in
           case send (client this) command sent of
             (Inl e, sent') \<Rightarrow> (Inl e, sent')
           | (Inr _, sent') \<Rightarrow> (Inr it, sent'))))))"

definition getItem ::
  "registry \<Rightarrow> DynamoDBRepository \<Rightarrow> DynamoKey \<Rightarrow> DynamoKey option \<Rightarrow> command list
     \<Rightarrow> (error + item) \<times> command list" where
  "getItem reg this pk sk sent =
     (case getTableName reg this of
        Inl e \<Rightarrow> (Inl e, sent)
      | Inr tableName \<Rightarrow>
     (case buildKeyMap reg this pk sk of
        Inl e \<Rightarrow> (Inl e, sent)
      | Inr key \<Rightarrow>
          (case send (client this) (GetCommand tableName key) sent of
             (Inl e, sent') \<Rightarrow> (Inl e, sent')
           | (Inr resp, sent') \<Rightarrow>
               (case Item resp of
                  Some it \<Rightarrow> (Inr it, sent')
                | None \<Rightarrow>
                    (Inl (ItemNotFoundError ''Item not found in your DynamoDB Table!''), sent')))))"

definition put ::
  "registry \<Rightarrow> DynamoDBRepository \<Rightarrow> item option \<Rightarrow> command list \<Rightarrow> (error + item) \<times> command list" where
  "put reg this item sent =
     (case item of
        None \<Rightarrow> (Inl (InvalidParametersError ''Item cannot be null or undefined!''), sent)
      | Some it \<Rightarrow>
     (case getTableName reg this of
        Inl e \<Rightarrow> (Inl e, sent)
      | Inr tableName \<Rightarrow>
          (case send (client this) (PutCommand tableName it None None) sent of
             (Inl e, sent') \<Rightarrow> (Inl e, sent')
           | (Inr _, sent') \<Rightarrow> (Inr it, sent'))))"

definition softDelete ::
  "registry \<Rightarrow> DynamoDBRepository \<Rightarrow> Date \<Rightarrow> DynamoKey \<Rightarrow> DynamoKey option \<Rightarrow> command list
     \<Rightarrow> (error + unit) \<times> command list" where
  "softDelete reg this now pk sk sent =
     (case getItem reg this pk sk sent of
        (Inl e, sent') \<Rightarrow> (Inl e, sent')
      | (Inr it, sent') \<Rightarrow>
          (let it' = it(''deletedAt'' \<mapsto> JString (toISOString now)) in
           case put reg this (Some it') sent' of
             (Inl e, sent'') \<Rightarrow> (Inl e, sent'')
           | (Inr _, sent'') \<Rightarrow> (Inr (), sent'')))"

definition remove ::
  "registry \<Rightarrow> DynamoDBRepository \<Rightarrow> DynamoKey \<Rightarrow> DynamoKey option \<Rightarrow> command list
     \<Rightarrow> (error + unit) \<times> command list" where
  "remove reg this pk sk sent =
     (case getTableName reg this of
        Inl e \<Rightarrow> (Inl e, sent)
      | Inr tableName \<Rightarrow>
     (case buildKeyMap reg this pk sk of
        Inl e \<Rightarrow> (Inl e, sent)
      | Inr key \<Rightarrow>
          (case send (client this) (DeleteCommand tableName key) sent of
             (Inl e, sent') \<Rightarrow> (Inl e, sent')
           | (Inr _, sent') \<Rightarrow> (Inr (), sent'))))"





section \<open>Declaring entity classes\<close>

text \<open>
  An entity class is declared by applying decorators to it. One application is a
  decorator with its arguments and its target: the class for \<open>@DynamoTable\<close>, the
  target object and the property name for the four property decorators. A history is
  a list of applications, run in order; an application that throws leaves the store as
  it was, and the history goes on (the throw reaches whoever declared the class).
\<close>

datatype decoration =
    ApplyDynamoTable "string option" cls
  | ApplyPartitionKey "string option" obj string
  | ApplySortKey "string option" obj string
  | ApplyIndexPartitionKey string "string option" obj string
  | ApplyIndexSortKey string "string option" obj string

fun applyDecorator :: "decoration \<Rightarrow> registry \<Rightarrow> error option \<times> registry" where
  "applyDecorator (ApplyDynamoTable tableName c) reg = DynamoTable tableName c reg"
| "applyDecorator (ApplyPartitionKey fieldName target p) reg = PartitionKey fieldName target p reg"
| "applyDecorator (ApplySortKey fieldName target p) reg = SortKey fieldName target p reg"
| "applyDecorator (ApplyIndexPartitionKey i fieldName target p) reg =
     IndexPartitionKey i fieldName target p reg"
| "applyDecorator (ApplyIndexSortKey i fieldName target p) reg =
     IndexSortKey i fieldName target p reg"

fun applyAll :: "decoration list \<Rightarrow> registry \<Rightarrow> registry" where
  "applyAll [] reg = reg"
| "applyAll (d # ds) reg = applyAll ds (snd (applyDecorator d reg))"

text \<open>
  Which fact of which class an application declares: for the class itself first, then
  for the class or one of its superclasses (the targets on the chain of the class), and
  for the index keys for any class of the hierarchy of the class, that is, any class
  with the same root class.
\<close>

fun declaresTable :: "cls \<Rightarrow> decoration \<Rightarrow> bool" where
  "declaresTable c (ApplyDynamoTable tableName c') = (c' = c)"
| "declaresTable c _ = False"


fun declaresSortKey :: "cls \<Rightarrow> decoration \<Rightarrow> bool" where
  "declaresSortKey c (ApplySortKey fieldName target p) = (target = Prototype c)"
| "declaresSortKey c _ = False"

fun declaresIndexPartitionKey :: "cls \<Rightarrow> string \<Rightarrow> decoration \<Rightarrow> bool" where
  "declaresIndexPartitionKey c indexName (ApplyIndexPartitionKey i fieldName target p) =
     (target = Prototype c \<and> i = indexName)"
| "declaresIndexPartitionKey c indexName _ = False"










subsection \<open>The entity classes of the examples and tests\<close>

text \<open>
  \<open>UserEntity\<close> of entity-example.ts: table \<open>User\<close>, partition key \<open>orgId\<close>, sort key
  \<open>id\<close>, and the sort key \<open>email\<close> of the index \<open>EmailIndex\<close>, all named after their
  properties. TypeScript applies the property decorators before the class decorator.
\<close>

definition UserEntity :: cls where
  "UserEntity = Class 1 ''UserEntity''"


text \<open>
  \<open>TestEntity\<close> of the repository tests: table \<open>TestTable\<close>, partition key \<open>pk\<close> on
  \<open>id\<close>, sort key \<open>sk\<close> on \<open>timestamp\<close>; and \<open>EntityPKOnly\<close>, with the partition key
  alone.
\<close>

definition TestEntity :: cls where
  "TestEntity = Class 2 ''TestEntity''"

definition testRegistry :: registry where
  "testRegistry = applyAll
     [ApplyPartitionKey (Some ''pk'') (Prototype TestEntity) ''id'',
      ApplySortKey (Some ''sk'') (Prototype TestEntity) ''timestamp'',
      ApplyDynamoTable (Some ''TestTable'') TestEntity] empty_registry"

definition EntityPKOnly :: cls where
  "EntityPKOnly = Class 3 ''EntityPKOnly''"

definition pkOnlyRegistry :: registry where
  "pkOnlyRegistry = applyAll
     [ApplyPartitionKey (Some ''pk'') (Prototype EntityPKOnly) ''id'',
      ApplyDynamoTable (Some ''TestTable'') EntityPKOnly] empty_registry"

text \<open>
  A class like \<open>TestEntity\<close> whose sort key is declared with the empty field name,
  \<open>@SortKey("")\<close>.
\<close>

definition EntityEmptySK :: cls where
  "EntityEmptySK = Class 4 ''EntityEmptySK''"

definition emptySKRegistry :: registry where
  "emptySKRegistry = applyAll
     [ApplyPartitionKey (Some ''pk'') (Prototype EntityEmptySK) ''id'',
      ApplySortKey (Some []) (Prototype EntityEmptySK) ''timestamp'',
      ApplyDynamoTable (Some ''TestTable'') EntityEmptySK] empty_registry"

text \<open>
  \<open>EntityWithIndex\<close> of the repository tests: \<open>TestEntity\<close> with the partition key
  \<open>emailType\<close> and the sort key \<open>email\<close> of the index \<open>EmailIndex\<close>.
\<close>

definition EntityWithIndex :: cls where
  "EntityWithIndex = Class 5 ''EntityWithIndex''"

definition indexRegistry :: registry where
  "indexRegistry = applyAll
     [ApplyPartitionKey (Some ''pk'') (Prototype EntityWithIndex) ''id'',
      ApplySortKey (Some ''sk'') (Prototype EntityWithIndex) ''timestamp'',
      ApplyIndexPartitionKey ''EmailIndex'' (Some ''emailType'') (Prototype EntityWithIndex)
        ''emailType'',
      ApplyIndexSortKey ''EmailIndex'' (Some ''email'') (Prototype EntityWithIndex) ''email'',
      ApplyDynamoTable (Some ''TestTable'') EntityWithIndex] empty_registry"







subsection \<open>Invariants of the store\<close>



subsection \<open>Mock clients\<close>

definition emptyResponse :: response where
  "emptyResponse = \<lparr> Item = None, Items = None, LastEvaluatedKey = None, Count = None \<rparr>"

text \<open>
  \<open>mockResolvedValue\<close> answers every command with the same response;
  \<open>mockResolvedValues\<close> answers the first commands with the responses listed, one
  each, and the later ones with the empty response.
\<close>

definition mockResolvedValue :: "response \<Rightarrow> client" where
  "mockResolvedValue r = (\<lambda>sent c. Inr r)"

definition mockResolvedValues :: "response list \<Rightarrow> client" where
  "mockResolvedValues rs =
     (\<lambda>sent c. if length sent < length rs then Inr (rs ! length sent) else Inr emptyResponse)"

definition testItem :: item where
  "testItem = [''id'' \<mapsto> JString ''test-id'', ''timestamp'' \<mapsto> JString ''2024-01-01'',
               ''name'' \<mapsto> JString ''Test Item'']"

section \<open>Properties\<close>

subsection \<open>The key-condition expression of a query\<close>

text \<open>
  Claim C1, as amended. \<open>buildQueryExpressions\<close> adds the sort-key part only when a
  sort value is supplied together with a non-empty sort field name (the guard
  \<open>sk !== undefined && skName\<close>). For every partition value and partition field name:
  with no sort value the condition is \<open>#pk = :pkValue\<close>; with a sort value but an
  absent or empty sort field name it is that same partition-only form, with no
  \<open>#sk\<close> and no \<open>:skValue\<close> binding; with a sort value, a non-empty sort field name
  and the comparator \<open>begins_with\<close> it is
  \<open>#pk = :pkValue AND begins_with(#sk, :skValue)\<close>; with any other comparator
  (\<open>BETWEEN\<close> among them) it is \<open>#pk = :pkValue AND #sk <comparator> :skValue\<close>, the
  comparator inserted as it is. The names bind \<open>#pk\<close> to the partition field name and,
  in the two sort forms, \<open>#sk\<close> to the sort field name; the values bind \<open>:pkValue\<close> to
  the partition value and, in the two sort forms, \<open>:skValue\<close> to the sort value.
\<close>

theorem buildQueryExpressions_cases:
  "(sk = None \<longrightarrow>
      buildQueryExpressions pk pkName sk skName cmp =
        \<lparr> keyConditionExpression = ''#pk = :pkValue'',
          expressionAttributeNames = [''#pk'' \<mapsto> pkName],
          expressionAttributeValues = ['':pkValue'' \<mapsto> pk] \<rparr>) \<and>
   (sk = Some skv \<and> \<not> truthy_opt skName \<longrightarrow>
      buildQueryExpressions pk pkName sk skName cmp =
        \<lparr> keyConditionExpression = ''#pk = :pkValue'',
          expressionAttributeNames = [''#pk'' \<mapsto> pkName],
          expressionAttributeValues = ['':pkValue'' \<mapsto> pk] \<rparr>) \<and>
   (sk = Some skv \<and> skName = Some n \<and> n \<noteq> [] \<and> cmp = Some ''begins_with'' \<longrightarrow>
      buildQueryExpressions pk pkName sk skName cmp =
        \<lparr> keyConditionExpression = ''#pk = :pkValue AND begins_with(#sk, :skValue)'',
          expressionAttributeNames = [''#pk'' \<mapsto> pkName, ''#sk'' \<mapsto> n],
          expressionAttributeValues = ['':pkValue'' \<mapsto> pk, '':skValue'' \<mapsto> skv] \<rparr>) \<and>
   (sk = Some skv \<and> skName = Some n \<and> n \<noteq> [] \<and> cmp = Some c \<and> c \<noteq> ''begins_with'' \<longrightarrow>
      buildQueryExpressions pk pkName sk skName cmp =
        \<lparr> keyConditionExpression = ''#pk = :pkValue AND #sk '' @ c @ '' :skValue'',
          expressionAttributeNames = [''#pk'' \<mapsto> pkName, ''#sk'' \<mapsto> n],
          expressionAttributeValues = ['':pkValue'' \<mapsto> pk, '':skValue'' \<mapsto> skv] \<rparr>)"
  by (simp add: buildQueryExpressions_def truthy_def)

text \<open>
  The four cases at concrete calls: partition value only; \<open>begins_with\<close>; \<open>BETWEEN\<close>
  with numeric values; a sort value with an empty sort field name.
\<close>

theorem buildQueryExpressions_cases_witness:
  "buildQueryExpressions (KeyString ''USER'') ''pk'' None None (Some ''='') =
     \<lparr> keyConditionExpression = ''#pk = :pkValue'',
       expressionAttributeNames = [''#pk'' \<mapsto> ''pk''],
       expressionAttributeValues = ['':pkValue'' \<mapsto> KeyString ''USER''] \<rparr> \<and>
   buildQueryExpressions (KeyString ''USER'') ''pk'' (Some (KeyString ''2024-'')) (Some ''sk'')
       (Some ''begins_with'') =
     \<lparr> keyConditionExpression = ''#pk = :pkValue AND begins_with(#sk, :skValue)'',
       expressionAttributeNames = [''#pk'' \<mapsto> ''pk'', ''#sk'' \<mapsto> ''sk''],
       expressionAttributeValues =
         ['':pkValue'' \<mapsto> KeyString ''USER'', '':skValue'' \<mapsto> KeyString ''2024-''] \<rparr> \<and>
   buildQueryExpressions (KeyNumber 123) ''pk'' (Some (KeyNumber 456)) (Some ''sk'')
       (Some ''BETWEEN'') =
     \<lparr> keyConditionExpression = ''#pk = :pkValue AND #sk BETWEEN :skValue'',
       expressionAttributeNames = [''#pk'' \<mapsto> ''pk'', ''#sk'' \<mapsto> ''sk''],
       expressionAttributeValues =
         ['':pkValue'' \<mapsto> KeyNumber 123, '':skValue'' \<mapsto> KeyNumber 456] \<rparr> \<and>
   buildQueryExpressions (KeyString ''USER'') ''pk'' (Some (KeyString ''u1'')) (Some [])
       (Some ''>'') =
     \<lparr> keyConditionExpression = ''#pk = :pkValue'',
       expressionAttributeNames = [''#pk'' \<mapsto> ''pk''],
       expressionAttributeValues = ['':pkValue'' \<mapsto> KeyString ''USER''] \<rparr>"
  using buildQueryExpressions_cases [of None "KeyString ''USER''" "''pk''" None "Some ''=''"]
        buildQueryExpressions_cases [of "Some (KeyString ''2024-'')" "KeyString ''USER''" "''pk''"
           "Some ''sk''" "Some ''begins_with''" "KeyString ''2024-''" "''sk''"]
        buildQueryExpressions_cases [of "Some (KeyNumber 456)" "KeyNumber 123" "''pk''"
           "Some ''sk''" "Some ''BETWEEN''" "KeyNumber 456" "''sk''" "''BETWEEN''"]
        buildQueryExpressions_cases [of "Some (KeyString ''u1'')" "KeyString ''USER''" "''pk''"
           "Some []" "Some ''>''" "KeyString ''u1''"]
  by (simp add: truthy_def)

text \<open>
  The claim as first stated fails where a sort value comes without a sort field name:
  the call \<open>buildQueryExpressions("USER", "pk", "2024-", undefined, "begins_with")\<close>
  returns the partition-only condition and binds no \<open>:skValue\<close>.
\<close>

theorem buildQueryExpressions_counterexample:
  "keyConditionExpression
     (buildQueryExpressions (KeyString ''USER'') ''pk'' (Some (KeyString ''2024-'')) None
        (Some ''begins_with'')) = ''#pk = :pkValue'' \<and>
   keyConditionExpression
     (buildQueryExpressions (KeyString ''USER'') ''pk'' (Some (KeyString ''2024-'')) None
        (Some ''begins_with'')) \<noteq> ''#pk = :pkValue AND begins_with(#sk, :skValue)'' \<and>
   expressionAttributeValues
     (buildQueryExpressions (KeyString ''USER'') ''pk'' (Some (KeyString ''2024-'')) None
        (Some ''begins_with'')) '':skValue'' = None"
  by (simp add: buildQueryExpressions_def)

subsection \<open>Evaluating declarations\<close>

text \<open>
  The definitions that evaluate a decorator application and a resolver call, and what
  the resolvers find for the example classes.
\<close>

lemmas decorator_defs =
  DynamoTable_def PartitionKey_def SortKey_def IndexPartitionKey_def IndexSortKey_def
  validateOptionalName_def validateNonEmptyString_def validateDuplicateDecorator_def
  getMetadata_def defineMetadata_def getRecordMetadata_def defineRecordMetadata_def
  existingKeysOf_def storeIndexKey_def getProperty_def objectPrototypeMember_def
  objectPrototypeFunctions_def truthy_def trim_def is_ws_def empty_registry_def Let_def
  DYNAMO_TABLE_NAME_KEY_def DYNAMO_PARTITION_KEY_KEY_def DYNAMO_SORT_KEY_KEY_def
  DYNAMO_INDEX_PARTITION_KEYS_KEY_def DYNAMO_INDEX_SORT_KEYS_KEY_def

lemmas resolver_defs =
  getDynamoTableName_def getPartitionKeyName_def getSortKeyName_def
  getIndexPartitionKeyName_def getIndexSortKeyName_def lookupIndexKeys_def getPrototype_def

lemma testRegistry_names:
  "getDynamoTableName testRegistry (ClassTarget TestEntity) = Some ''TestTable''"
  "getPartitionKeyName testRegistry (ClassTarget TestEntity) = Some ''pk''"
  "getSortKeyName testRegistry (ClassTarget TestEntity) = Some ''sk''"
  by (simp_all add: testRegistry_def decorator_defs resolver_defs TestEntity_def)


lemma emptySK_names:
  "getDynamoTableName emptySKRegistry (ClassTarget EntityEmptySK) = Some ''TestTable''"
  "getPartitionKeyName emptySKRegistry (ClassTarget EntityEmptySK) = Some ''pk''"
  "getSortKeyName emptySKRegistry (ClassTarget EntityEmptySK) = Some []"
  by (simp_all add: emptySKRegistry_def decorator_defs resolver_defs EntityEmptySK_def)

lemma pkOnly_names:
  "getDynamoTableName pkOnlyRegistry (ClassTarget EntityPKOnly) = Some ''TestTable''"
  "getPartitionKeyName pkOnlyRegistry (ClassTarget EntityPKOnly) = Some ''pk''"
  "getSortKeyName pkOnlyRegistry (ClassTarget EntityPKOnly) = None"
  by (simp_all add: pkOnlyRegistry_def decorator_defs resolver_defs EntityPKOnly_def)

lemma indexRegistry_names:
  "getDynamoTableName indexRegistry (ClassTarget EntityWithIndex) = Some ''TestTable''"
  "getPartitionKeyName indexRegistry (ClassTarget EntityWithIndex) = Some ''pk''"
  "getSortKeyName indexRegistry (ClassTarget EntityWithIndex) = Some ''sk''"
  "getIndexPartitionKeyName indexRegistry (ClassTarget EntityWithIndex) ''EmailIndex'' =
     Inr (Some ''emailType'')"
  "getIndexSortKeyName indexRegistry (ClassTarget EntityWithIndex) ''EmailIndex'' =
     Inr (Some ''email'')"
  by (simp_all add: indexRegistry_def decorator_defs resolver_defs EntityWithIndex_def)

lemma trim_blank3: "trim ''   '' = []"
  by (simp add: trim_def is_ws_def)

lemma validateOptionalName_cases:
  "validateOptionalName fieldName paramName =
     (case fieldName of
        None \<Rightarrow> None
      | Some n \<Rightarrow> if n \<noteq> [] \<and> trim n = []
                  then Some (Error (''Invalid '' @ paramName @ '': cannot be an empty string.''))
                  else None)"
  by (auto simp: validateOptionalName_def validateNonEmptyString_def truthy_def split: option.splits)

subsection \<open>Duplicate declarations\<close>

text \<open>
  Claim C3, as amended. For every class that already has a partition key registered,
  applying \<open>@PartitionKey\<close> again throws at once, while the declaration is applied,
  and leaves the store, and so the registered field name, as it was. The error is a
  \<open>DuplicateDecoratorError\<close> whenever the new declaration gives no field name, the
  empty one, or one that is not blank; when it gives a non-empty field name of white
  space only, the validation of the name comes first and throws the plain \<open>Error\<close>
  \<open>Invalid fieldName: cannot be an empty string.\<close> instead. The same holds for
  \<open>@SortKey\<close>, and for \<open>@IndexPartitionKey\<close> and \<open>@IndexSortKey\<close> applied again
  for an index name that already has its key.
\<close>

theorem duplicate_declaration_raises:
  "(getPartitionKeyName reg (ClassTarget c) = Some existing \<longrightarrow>
      (fieldName = None \<or> fieldName = Some n \<and> (n = [] \<or> trim n \<noteq> []) \<longrightarrow>
         (\<exists>m. PartitionKey fieldName (Prototype c) p reg = (Some (DuplicateDecoratorError m), reg))) \<and>
      (fieldName = Some n \<and> n \<noteq> [] \<and> trim n = [] \<longrightarrow>
         PartitionKey fieldName (Prototype c) p reg =
           (Some (Error ''Invalid fieldName: cannot be an empty string.''), reg))) \<and>
   (getSortKeyName reg (ClassTarget c) = Some existing \<longrightarrow>
      (fieldName = None \<or> fieldName = Some n \<and> (n = [] \<or> trim n \<noteq> []) \<longrightarrow>
         (\<exists>m. SortKey fieldName (Prototype c) p reg = (Some (DuplicateDecoratorError m), reg))) \<and>
      (fieldName = Some n \<and> n \<noteq> [] \<and> trim n = [] \<longrightarrow>
         SortKey fieldName (Prototype c) p reg =
           (Some (Error ''Invalid fieldName: cannot be an empty string.''), reg))) \<and>
   (getIndexPartitionKeyName reg (ClassTarget c) i = Inr (Some existing) \<longrightarrow>
      (fieldName = None \<or> fieldName = Some n \<and> (n = [] \<or> trim n \<noteq> []) \<longrightarrow>
         (\<exists>m. IndexPartitionKey i fieldName (Prototype c) p reg =
                (Some (DuplicateDecoratorError m), reg))) \<and>
      (fieldName = Some n \<and> n \<noteq> [] \<and> trim n = [] \<longrightarrow>
         IndexPartitionKey i fieldName (Prototype c) p reg =
           (Some (Error ''Invalid fieldName: cannot be an empty string.''), reg))) \<and>
   (getIndexSortKeyName reg (ClassTarget c) i = Inr (Some existing) \<longrightarrow>
      (fieldName = None \<or> fieldName = Some n \<and> (n = [] \<or> trim n \<noteq> []) \<longrightarrow>
         (\<exists>m. IndexSortKey i fieldName (Prototype c) p reg =
                (Some (DuplicateDecoratorError m), reg))) \<and>
      (fieldName = Some n \<and> n \<noteq> [] \<and> trim n = [] \<longrightarrow>
         IndexSortKey i fieldName (Prototype c) p reg =
           (Some (Error ''Invalid fieldName: cannot be an empty string.''), reg)))"
proof -
  have pk: "getPartitionKeyName reg (ClassTarget c) = Some existing \<Longrightarrow>
      (fieldName = None \<or> fieldName = Some n \<and> (n = [] \<or> trim n \<noteq> []) \<longrightarrow>
         (\<exists>m. PartitionKey fieldName (Prototype c) p reg = (Some (DuplicateDecoratorError m), reg))) \<and>
      (fieldName = Some n \<and> n \<noteq> [] \<and> trim n = [] \<longrightarrow>
         PartitionKey fieldName (Prototype c) p reg =
           (Some (Error ''Invalid fieldName: cannot be an empty string.''), reg))"
    by (auto simp: PartitionKey_def validateOptionalName_cases validateDuplicateDecorator_def
          getPartitionKeyName_def getPrototype_def)
  have sk: "getSortKeyName reg (ClassTarget c) = Some existing \<Longrightarrow>
      (fieldName = None \<or> fieldName = Some n \<and> (n = [] \<or> trim n \<noteq> []) \<longrightarrow>
         (\<exists>m. SortKey fieldName (Prototype c) p reg = (Some (DuplicateDecoratorError m), reg))) \<and>
      (fieldName = Some n \<and> n \<noteq> [] \<and> trim n = [] \<longrightarrow>
         SortKey fieldName (Prototype c) p reg =
           (Some (Error ''Invalid fieldName: cannot be an empty string.''), reg))"
    by (auto simp: SortKey_def validateOptionalName_cases validateDuplicateDecorator_def
          getSortKeyName_def getPrototype_def)
  have ipk: "getIndexPartitionKeyName reg (ClassTarget c) i = Inr (Some existing) \<Longrightarrow>
      (fieldName = None \<or> fieldName = Some n \<and> (n = [] \<or> trim n \<noteq> []) \<longrightarrow>
         (\<exists>m. IndexPartitionKey i fieldName (Prototype c) p reg =
                (Some (DuplicateDecoratorError m), reg))) \<and>
      (fieldName = Some n \<and> n \<noteq> [] \<and> trim n = [] \<longrightarrow>
         IndexPartitionKey i fieldName (Prototype c) p reg =
           (Some (Error ''Invalid fieldName: cannot be an empty string.''), reg))"
    by (auto simp: IndexPartitionKey_def validateOptionalName_cases validateNonEmptyString_def
          getIndexPartitionKeyName_def getPrototype_def lookupIndexKeys_def existingKeysOf_def
          split: if_splits option.splits)
  have isk: "getIndexSortKeyName reg (ClassTarget c) i = Inr (Some existing) \<Longrightarrow>
      (fieldName = None \<or> fieldName = Some n \<and> (n = [] \<or> trim n \<noteq> []) \<longrightarrow>
         (\<exists>m. IndexSortKey i fieldName (Prototype c) p reg =
                (Some (DuplicateDecoratorError m), reg))) \<and>
      (fieldName = Some n \<and> n \<noteq> [] \<and> trim n = [] \<longrightarrow>
         IndexSortKey i fieldName (Prototype c) p reg =
           (Some (Error ''Invalid fieldName: cannot be an empty string.''), reg))"
    by (auto simp: IndexSortKey_def validateOptionalName_cases validateNonEmptyString_def
          getIndexSortKeyName_def getPrototype_def lookupIndexKeys_def existingKeysOf_def
          split: if_splits option.splits)
  from pk sk ipk isk show ?thesis by blast
qed

text \<open>
  Second declarations on \<open>TestEntity\<close> and \<open>EntityWithIndex\<close>: each throws and
  returns the store it was given.
\<close>

theorem duplicate_declaration_raises_witness:
  "getPartitionKeyName testRegistry (ClassTarget TestEntity) = Some ''pk'' \<and>
   (\<exists>m. PartitionKey (Some ''pk2'') (Prototype TestEntity) ''name'' testRegistry =
          (Some (DuplicateDecoratorError m), testRegistry)) \<and>
   PartitionKey (Some ''   '') (Prototype TestEntity) ''name'' testRegistry =
     (Some (Error ''Invalid fieldName: cannot be an empty string.''), testRegistry) \<and>
   getSortKeyName testRegistry (ClassTarget TestEntity) = Some ''sk'' \<and>
   (\<exists>m. SortKey None (Prototype TestEntity) ''name'' testRegistry =
          (Some (DuplicateDecoratorError m), testRegistry)) \<and>
   getIndexPartitionKeyName indexRegistry (ClassTarget EntityWithIndex) ''EmailIndex'' =
     Inr (Some ''emailType'') \<and>
   (\<exists>m. IndexPartitionKey ''EmailIndex'' (Some []) (Prototype EntityWithIndex) ''other''
            indexRegistry = (Some (DuplicateDecoratorError m), indexRegistry)) \<and>
   getIndexSortKeyName indexRegistry (ClassTarget EntityWithIndex) ''EmailIndex'' =
     Inr (Some ''email'') \<and>
   (\<exists>m. IndexSortKey ''EmailIndex'' (Some ''other'') (Prototype EntityWithIndex) ''other''
            indexRegistry = (Some (DuplicateDecoratorError m), indexRegistry))"
  using duplicate_declaration_raises [where reg = testRegistry and c = TestEntity
          and existing = "''pk''" and fieldName = "Some ''pk2''" and n = "''pk2''" and p = "''name''"]
        duplicate_declaration_raises [where reg = testRegistry and c = TestEntity
          and existing = "''pk''" and fieldName = "Some ''   ''" and n = "''   ''" and p = "''name''"]
        duplicate_declaration_raises [where reg = testRegistry and c = TestEntity
          and existing = "''sk''" and fieldName = None and p = "''name''"]
        duplicate_declaration_raises [where reg = indexRegistry and c = EntityWithIndex
          and existing = "''emailType''" and fieldName = "Some []" and n = "[]"
          and p = "''other''" and i = "''EmailIndex''"]
        duplicate_declaration_raises [where reg = indexRegistry and c = EntityWithIndex
          and existing = "''email''" and fieldName = "Some ''other''" and n = "''other''"
          and p = "''other''" and i = "''EmailIndex''"]
  by (simp add: testRegistry_names indexRegistry_names trim_blank3 trim_def is_ws_def)

text \<open>
  The claim as first stated fails for a second \<open>@PartitionKey\<close> whose field name is
  three spaces: after \<open>@PartitionKey("pk")\<close> on an empty store, it throws the plain
  \<open>Error\<close> of the name validation, not a \<open>DuplicateDecoratorError\<close>.
\<close>

theorem duplicate_declaration_counterexample:
  "PartitionKey (Some ''pk'') (Prototype TestEntity) ''id'' empty_registry =
     (None, defineMetadata DYNAMO_PARTITION_KEY_KEY ''pk'' (Prototype TestEntity) empty_registry) \<and>
   getPartitionKeyName
     (defineMetadata DYNAMO_PARTITION_KEY_KEY ''pk'' (Prototype TestEntity) empty_registry)
     (ClassTarget TestEntity) = Some ''pk'' \<and>
   PartitionKey (Some ''   '') (Prototype TestEntity) ''timestamp''
     (defineMetadata DYNAMO_PARTITION_KEY_KEY ''pk'' (Prototype TestEntity) empty_registry) =
     (Some (Error ''Invalid fieldName: cannot be an empty string.''),
      defineMetadata DYNAMO_PARTITION_KEY_KEY ''pk'' (Prototype TestEntity) empty_registry)"
  by (simp add: PartitionKey_def validateOptionalName_def validateNonEmptyString_def
        validateDuplicateDecorator_def getMetadata_def defineMetadata_def empty_registry_def
        truthy_def trim_blank3 getPartitionKeyName_def getPrototype_def trim_def is_ws_def
        TestEntity_def Let_def)

subsection \<open>Resolving what was never declared\<close>



























lemma firstDefined_None: "firstDefined (\<lambda>x. None) xs = None"
  by (induction xs) simp_all

lemma empty_registry_lookups:
  "getDynamoTableName empty_registry t = None"
  "getPartitionKeyName empty_registry t = None"
  "getSortKeyName empty_registry t = None"
  by (simp_all add: getDynamoTableName_def getPartitionKeyName_def getSortKeyName_def
        getMetadata_def empty_registry_def firstDefined_None del: chain.simps)






subsection \<open>Evaluating the repository\<close>

lemmas repository_defs =
  getTableName_def getPKName_def getSKName_def buildKeyMap_def
  buildCreateConditionExpression_def buildExpressionAttributeNames_def send_def

lemma testRepo_resolved:
  "getTableName testRegistry \<lparr> client = cl, entityClass = TestEntity \<rparr> = Inr ''TestTable''"
  "getPKName testRegistry \<lparr> client = cl, entityClass = TestEntity \<rparr> None = Inr ''pk''"
  "getSKName testRegistry \<lparr> client = cl, entityClass = TestEntity \<rparr> None = Inr (Some ''sk'')"
  "buildKeyMap testRegistry \<lparr> client = cl, entityClass = TestEntity \<rparr> pk (Some skv) =
     Inr [''pk'' \<mapsto> pk, ''sk'' \<mapsto> skv]"
  by (simp_all add: repository_defs testRegistry_names truthy_def)




lemma toISOString_not_empty: "toISOString d \<noteq> []"
  by (simp add: toISOString_def)

subsection \<open>Entities with a partition key only\<close>

text \<open>
  Claim C5. Take an entity class with a partition key, that is, one for which
  \<open>getPKName\<close> resolves a partition-key field, and with no sort key declared. Then
  \<open>getItem\<close> and \<open>remove\<close> called with a sort value throw a
  \<open>DecoratorMissingError\<close> and send nothing to the store, and \<open>buildKeyMap\<close> called
  without a sort value returns the key map with the single entry of the partition-key
  field.
\<close>

theorem partition_only_entity:
  assumes "getPKName reg this None = Inr pkName"
    and "getSortKeyName reg (ClassTarget (entityClass this)) = None"
  shows "(\<exists>m. getItem reg this pk (Some skv) sent = (Inl (DecoratorMissingError m), sent)) \<and>
         (\<exists>m. remove reg this pk (Some skv) sent = (Inl (DecoratorMissingError m), sent)) \<and>
         buildKeyMap reg this pk None = Inr [pkName \<mapsto> pk]"
proof -
  have sk: "getSKName reg this None = Inr None"
    using assms(2) by (simp add: getSKName_def)
  have km: "\<exists>m. buildKeyMap reg this pk (Some skv) = Inl (DecoratorMissingError m)"
    using assms(1) sk by (simp add: buildKeyMap_def)
  have tn: "(\<exists>m. getTableName reg this = Inl (DecoratorMissingError m)) \<or>
            (\<exists>t. getTableName reg this = Inr t)"
    by (simp add: getTableName_def Let_def)
  have g: "\<exists>m. getItem reg this pk (Some skv) sent = (Inl (DecoratorMissingError m), sent)"
    using km tn by (auto simp: getItem_def)
  have r: "\<exists>m. remove reg this pk (Some skv) sent = (Inl (DecoratorMissingError m), sent)"
    using km tn by (auto simp: remove_def)
  have b: "buildKeyMap reg this pk None = Inr [pkName \<mapsto> pk]"
    using assms(1) by (simp add: buildKeyMap_def)
  from g r b show ?thesis by blast
qed

text \<open>\<open>EntityPKOnly\<close> of the tests, with the calls the tests make.\<close>

theorem partition_only_entity_witness:
  "getPKName pkOnlyRegistry \<lparr> client = mockResolvedValue emptyResponse, entityClass = EntityPKOnly \<rparr>
     None = Inr ''pk'' \<and>
   getSortKeyName pkOnlyRegistry (ClassTarget EntityPKOnly) = None \<and>
   (\<exists>m. getItem pkOnlyRegistry
          \<lparr> client = mockResolvedValue emptyResponse, entityClass = EntityPKOnly \<rparr>
          (KeyString ''pk-value'') (Some (KeyString ''sk-value'')) [] =
        (Inl (DecoratorMissingError m), [])) \<and>
   (\<exists>m. remove pkOnlyRegistry
          \<lparr> client = mockResolvedValue emptyResponse, entityClass = EntityPKOnly \<rparr>
          (KeyString ''pk-value'') (Some (KeyString ''sk-value'')) [] =
        (Inl (DecoratorMissingError m), [])) \<and>
   buildKeyMap pkOnlyRegistry
     \<lparr> client = mockResolvedValue emptyResponse, entityClass = EntityPKOnly \<rparr>
     (KeyString ''partition-value'') None = Inr [''pk'' \<mapsto> KeyString ''partition-value'']"
proof -
  have pk: "getPKName pkOnlyRegistry
      \<lparr> client = mockResolvedValue emptyResponse, entityClass = EntityPKOnly \<rparr> None = Inr ''pk''"
    by (simp add: getPKName_def pkOnly_names truthy_def)
  have sk: "getSortKeyName pkOnlyRegistry (ClassTarget (entityClass
      \<lparr> client = mockResolvedValue emptyResponse, entityClass = EntityPKOnly \<rparr>)) = None"
    by (simp add: pkOnly_names)
  show ?thesis
    using partition_only_entity [OF pk sk, of "KeyString ''pk-value''" "KeyString ''sk-value''" "[]"]
          partition_only_entity [OF pk sk, of "KeyString ''partition-value''"]
          pk sk
    by simp
qed

subsection \<open>Reading an item\<close>

text \<open>
  Claim C6. When \<open>getItem\<close> reaches the store (table name and key map resolve) and
  the store answers the point read, then a response without an item makes \<open>getItem\<close>
  throw the \<open>ItemNotFoundError\<close>, and a response with an item makes it return that
  item; it has no absent result. In both cases exactly the one \<open>GetCommand\<close> was sent.
\<close>

theorem getItem_found_or_not_found:
  assumes "getTableName reg this = Inr tableName"
    and "buildKeyMap reg this pk sk = Inr key"
    and "client this sent (GetCommand tableName key) = Inr resp"
  shows "(Item resp = None \<longrightarrow>
            getItem reg this pk sk sent =
              (Inl (ItemNotFoundError ''Item not found in your DynamoDB Table!''),
               sent @ [GetCommand tableName key])) \<and>
         (Item resp = Some it \<longrightarrow>
            getItem reg this pk sk sent = (Inr it, sent @ [GetCommand tableName key]))"
  using assms by (simp add: getItem_def send_def)

text \<open>\<open>TestEntity\<close> with a store that has no item, and with one that has \<open>testItem\<close>.\<close>

theorem getItem_found_or_not_found_witness:
  "getItem testRegistry \<lparr> client = mockResolvedValue emptyResponse, entityClass = TestEntity \<rparr>
     (KeyString ''test-id'') (Some (KeyString ''2024-01-01'')) [] =
     (Inl (ItemNotFoundError ''Item not found in your DynamoDB Table!''),
      [GetCommand ''TestTable''
         [''pk'' \<mapsto> KeyString ''test-id'', ''sk'' \<mapsto> KeyString ''2024-01-01'']]) \<and>
   getItem testRegistry
     \<lparr> client = mockResolvedValue (emptyResponse\<lparr> Item := Some testItem \<rparr>),
       entityClass = TestEntity \<rparr>
     (KeyString ''test-id'') (Some (KeyString ''2024-01-01'')) [] =
     (Inr testItem,
      [GetCommand ''TestTable''
         [''pk'' \<mapsto> KeyString ''test-id'', ''sk'' \<mapsto> KeyString ''2024-01-01'']])"
proof -
  have a: "client \<lparr> client = mockResolvedValue emptyResponse, entityClass = TestEntity \<rparr> []
             (GetCommand ''TestTable''
                [''pk'' \<mapsto> KeyString ''test-id'', ''sk'' \<mapsto> KeyString ''2024-01-01'']) =
           Inr emptyResponse"
    by (simp add: mockResolvedValue_def)
  have b: "client \<lparr> client = mockResolvedValue (emptyResponse\<lparr> Item := Some testItem \<rparr>),
                    entityClass = TestEntity \<rparr> []
             (GetCommand ''TestTable''
                [''pk'' \<mapsto> KeyString ''test-id'', ''sk'' \<mapsto> KeyString ''2024-01-01'']) =
           Inr (emptyResponse\<lparr> Item := Some testItem \<rparr>)"
    by (simp add: mockResolvedValue_def)
  show ?thesis
    using getItem_found_or_not_found [OF testRepo_resolved(1) testRepo_resolved(4) a]
          getItem_found_or_not_found [OF testRepo_resolved(1) testRepo_resolved(4) b, of testItem]
    by (simp add: emptyResponse_def)
qed

subsection \<open>Absent items\<close>

text \<open>
  Claim C7, at the failing input: \<open>create\<close> called with an absent item throws before
  anything is sent, as claimed, but what it throws is the plain \<open>Error\<close> with the
  message \<open>Item cannot be null or undefined\<close>, not an \<open>InvalidParametersError\<close>.
\<close>

theorem create_absent_item_plain_error:
  "create reg this None sent = (Inl (Error ''Item cannot be null or undefined''), sent)"
  by (simp add: create_def)

text \<open>
  \<open>put\<close> called with an absent item does throw the \<open>InvalidParametersError\<close>, and
  sends nothing.
\<close>

theorem put_absent_item:
  "put reg this None sent =
     (Inl (InvalidParametersError ''Item cannot be null or undefined!''), sent)"
  by (simp add: put_def)

theorem put_absent_item_witness:
  "put testRegistry \<lparr> client = mockResolvedValue emptyResponse, entityClass = TestEntity \<rparr>
     None [] = (Inl (InvalidParametersError ''Item cannot be null or undefined!''), [])"
  using put_absent_item [of testRegistry
          "\<lparr> client = mockResolvedValue emptyResponse, entityClass = TestEntity \<rparr>" "[]"]
  by simp

subsection \<open>Table names\<close>

text \<open>
  Claim C8, at the failing input: \<open>@DynamoTable("")\<close> applied to a class without a
  table name does not throw. The guard \<open>if (tableName)\<close> skips the validation of the
  empty name, \<open>tableName ?? target.name\<close> keeps it, and the empty string is registered
  as the table name.
\<close>

theorem DynamoTable_empty_name_registered:
  "DynamoTable (Some []) TestEntity empty_registry =
     (None, defineMetadata DYNAMO_TABLE_NAME_KEY [] (Constructor TestEntity) empty_registry) \<and>
   getDynamoTableName (snd (DynamoTable (Some []) TestEntity empty_registry))
     (ClassTarget TestEntity) = Some []"
  by (simp add: DynamoTable_def validateOptionalName_def validateDuplicateDecorator_def
        getMetadata_def defineMetadata_def empty_registry_def truthy_def getDynamoTableName_def
        getConstructor.simps TestEntity_def)

text \<open>
  A table name that is not empty and consists of white space only is refused with the
  plain \<open>Error\<close> of the validation and registers nothing; with no table name, a class
  without a table name gets its own declared name.
\<close>

theorem DynamoTable_names:
  "(tableName \<noteq> [] \<and> trim tableName = [] \<longrightarrow>
      DynamoTable (Some tableName) c reg =
        (Some (Error ''Invalid tableName: cannot be an empty string.''), reg)) \<and>
   (getDynamoTableName reg (ClassTarget c) = None \<longrightarrow>
      fst (DynamoTable None c reg) = None \<and>
      getDynamoTableName (snd (DynamoTable None c reg)) (ClassTarget c) = Some (cname c))"
  by (simp add: DynamoTable_def validateOptionalName_def validateNonEmptyString_def
        validateDuplicateDecorator_def getMetadata_def defineMetadata_def truthy_def
        getDynamoTableName_def)

theorem DynamoTable_names_witness:
  "DynamoTable (Some ''   '') TestEntity empty_registry =
     (Some (Error ''Invalid tableName: cannot be an empty string.''), empty_registry) \<and>
   getDynamoTableName empty_registry (ClassTarget UserEntity) = None \<and>
   fst (DynamoTable None UserEntity empty_registry) = None \<and>
   getDynamoTableName (snd (DynamoTable None UserEntity empty_registry)) (ClassTarget UserEntity) =
     Some ''UserEntity''"
  using DynamoTable_names [of "''   ''" TestEntity empty_registry]
        DynamoTable_names [of "''   ''" UserEntity empty_registry]
  by (simp add: trim_blank3 empty_registry_lookups UserEntity_def)

subsection \<open>Soft delete\<close>

text \<open>
  Claim C9. When the item of the key exists (the point read of \<open>getItem\<close> reaches the
  store and is answered with an item), \<open>softDelete\<close> sends exactly two commands: the
  \<open>GetCommand\<close> of the read and then one \<open>PutCommand\<close>. The item written is the item
  read with the field \<open>deletedAt\<close> set to the textual timestamp of the clock, which is
  never empty; every other field is as it was read.
\<close>

theorem softDelete_one_read_one_write:
  assumes "getTableName reg this = Inr tableName"
    and "buildKeyMap reg this pk sk = Inr key"
    and "client this sent (GetCommand tableName key) = Inr resp"
    and "Item resp = Some it"
  shows "snd (softDelete reg this now pk sk sent) =
           sent @ [GetCommand tableName key,
                   PutCommand tableName (it(''deletedAt'' \<mapsto> JString (toISOString now))) None None] \<and>
         toISOString now \<noteq> [] \<and>
         (\<forall>field. field \<noteq> ''deletedAt'' \<longrightarrow>
            (it(''deletedAt'' \<mapsto> JString (toISOString now))) field = it field)"
  using assms
  by (simp add: softDelete_def getItem_def put_def send_def toISOString_not_empty Let_def
        split: sum.splits)

text \<open>
  The scenario of the tests: the store answers the read with \<open>testItem\<close>, which has
  no \<open>deletedAt\<close>, and the clock reads 15 January 2024, 09:30:05.042 UTC.
\<close>

theorem softDelete_one_read_one_write_witness:
  "snd (softDelete testRegistry
          \<lparr> client = mockResolvedValues [emptyResponse\<lparr> Item := Some testItem \<rparr>, emptyResponse],
            entityClass = TestEntity \<rparr>
          \<lparr> utcFullYear = 2024, utcMonth = 0, utcDate = 15, utcHours = 9, utcMinutes = 30,
            utcSeconds = 5, utcMilliseconds = 42 \<rparr>
          (KeyString ''test-id'') (Some (KeyString ''2024-01-01'')) []) =
     [GetCommand ''TestTable''
        [''pk'' \<mapsto> KeyString ''test-id'', ''sk'' \<mapsto> KeyString ''2024-01-01''],
      PutCommand ''TestTable''
        (testItem(''deletedAt'' \<mapsto> JString ''2024-01-15T09:30:05.042Z'')) None None] \<and>
   (testItem(''deletedAt'' \<mapsto> JString ''2024-01-15T09:30:05.042Z'')) ''name'' =
     Some (JString ''Test Item'') \<and>
   testItem ''deletedAt'' = None"
proof -
  have a: "client \<lparr> client = mockResolvedValues [emptyResponse\<lparr> Item := Some testItem \<rparr>, emptyResponse],
                    entityClass = TestEntity \<rparr> []
             (GetCommand ''TestTable''
                [''pk'' \<mapsto> KeyString ''test-id'', ''sk'' \<mapsto> KeyString ''2024-01-01'']) =
           Inr (emptyResponse\<lparr> Item := Some testItem \<rparr>)"
    by (simp add: mockResolvedValues_def)
  have b: "Item (emptyResponse\<lparr> Item := Some testItem \<rparr>) = Some testItem"
    by simp
  have iso: "toISOString \<lparr> utcFullYear = 2024, utcMonth = 0, utcDate = 15, utcHours = 9,
               utcMinutes = 30, utcSeconds = 5, utcMilliseconds = 42 \<rparr> =
             ''2024-01-15T09:30:05.042Z''"
    by code_simp
  show ?thesis
    using softDelete_one_read_one_write [OF testRepo_resolved(1) testRepo_resolved(4) a b,
            of "\<lparr> utcFullYear = 2024, utcMonth = 0, utcDate = 15, utcHours = 9,
               utcMinutes = 30, utcSeconds = 5, utcMilliseconds = 42 \<rparr>"]
    by (simp add: iso testItem_def)
qed

subsection \<open>Queries on an index\<close>




subsection \<open>The condition of a create\<close>

text \<open>
  Claim C2, at the failing input: \<open>@SortKey("")\<close> is accepted (the guard
  \<open>if (fieldName)\<close> skips the validation of the empty name) and registers the empty
  string as the sort key of \<open>EntityEmptySK\<close>. \<open>create\<close> on this class with a declared
  sort key sends the condition \<open>attribute_not_exists(#pk)\<close> alone, with no \<open>#sk\<close>
  name.
\<close>

theorem create_empty_sort_key_name:
  "fst (SortKey (Some []) (Prototype EntityEmptySK) ''timestamp''
          (snd (PartitionKey (Some ''pk'') (Prototype EntityEmptySK) ''id'' empty_registry))) = None \<and>
   getSortKeyName emptySKRegistry (ClassTarget EntityEmptySK) = Some [] \<and>
   create emptySKRegistry
     \<lparr> client = mockResolvedValue emptyResponse, entityClass = EntityEmptySK \<rparr>
     (Some testItem) [] =
     (Inr testItem,
      [PutCommand ''TestTable'' testItem (Some ''attribute_not_exists(#pk)'')
         (Some [''#pk'' \<mapsto> ''pk''])])"
proof -
  have a: "fst (SortKey (Some []) (Prototype EntityEmptySK) ''timestamp''
          (snd (PartitionKey (Some ''pk'') (Prototype EntityEmptySK) ''id'' empty_registry))) = None"
    by (simp add: decorator_defs EntityEmptySK_def)
  have b: "create emptySKRegistry
     \<lparr> client = mockResolvedValue emptyResponse, entityClass = EntityEmptySK \<rparr>
     (Some testItem) [] =
     (Inr testItem,
      [PutCommand ''TestTable'' testItem (Some ''attribute_not_exists(#pk)'')
         (Some [''#pk'' \<mapsto> ''pk''])])"
    by (simp add: create_def repository_defs emptySK_names truthy_def mockResolvedValue_def)
  from a b show ?thesis by (simp add: emptySK_names)
qed

text \<open>
  For a class whose table name and partition key resolve: when the sort key is
  registered with a non-empty name, \<open>create\<close> sends the one \<open>PutCommand\<close> with the
  condition on both keys and the names of both; when no sort key is registered, it sends
  the condition on the partition key alone and no \<open>#sk\<close> name.
\<close>

theorem create_condition:
  assumes "getTableName reg this = Inr tableName"
    and "getPKName reg this None = Inr pkName"
  shows "(getSortKeyName reg (ClassTarget (entityClass this)) = Some s \<and> s \<noteq> [] \<longrightarrow>
            snd (create reg this (Some it) sent) =
              sent @ [PutCommand tableName it
                        (Some ''attribute_not_exists(#pk) AND attribute_not_exists(#sk)'')
                        (Some [''#pk'' \<mapsto> pkName, ''#sk'' \<mapsto> s])]) \<and>
         (getSortKeyName reg (ClassTarget (entityClass this)) = None \<longrightarrow>
            snd (create reg this (Some it) sent) =
              sent @ [PutCommand tableName it (Some ''attribute_not_exists(#pk)'')
                        (Some [''#pk'' \<mapsto> pkName])])"
  using assms
  by (simp add: create_def getSKName_def buildCreateConditionExpression_def
        buildExpressionAttributeNames_def send_def truthy_def Let_def split: sum.splits)

theorem create_condition_witness:
  "snd (create testRegistry
          \<lparr> client = mockResolvedValue emptyResponse, entityClass = TestEntity \<rparr>
          (Some testItem) []) =
     [PutCommand ''TestTable'' testItem
        (Some ''attribute_not_exists(#pk) AND attribute_not_exists(#sk)'')
        (Some [''#pk'' \<mapsto> ''pk'', ''#sk'' \<mapsto> ''sk''])] \<and>
   snd (create pkOnlyRegistry
          \<lparr> client = mockResolvedValue emptyResponse, entityClass = EntityPKOnly \<rparr>
          (Some testItem) []) =
     [PutCommand ''TestTable'' testItem (Some ''attribute_not_exists(#pk)'')
        (Some [''#pk'' \<mapsto> ''pk''])]"
proof -
  have t: "getTableName pkOnlyRegistry
      \<lparr> client = mockResolvedValue emptyResponse, entityClass = EntityPKOnly \<rparr> = Inr ''TestTable''"
    by (simp add: getTableName_def pkOnly_names truthy_def)
  have p: "getPKName pkOnlyRegistry
      \<lparr> client = mockResolvedValue emptyResponse, entityClass = EntityPKOnly \<rparr> None = Inr ''pk''"
    by (simp add: getPKName_def pkOnly_names truthy_def)
  show ?thesis
    using create_condition [OF testRepo_resolved(1) testRepo_resolved(2),
            of "mockResolvedValue emptyResponse" "''sk''" testItem "[]"]
          create_condition [OF t p, of "''sk''" testItem "[]"]
    by (simp add: testRegistry_names pkOnly_names)
qed

end
